theory Spec2Isabelle
  imports Complex_Main "HOL-Library.Multiset" "HOL-Library.Sublist"
begin

section \<open>Smart Places: the place-discovery pipeline of \<open>src/App.js\<close>\<close>

text \<open>
  The development embeds the logic of the single component \<open>App\<close>: the great-circle distance
  (\<open>calculateDistance\<close>), the body of \<open>searchPlacesOverpass\<close> (query text, response handling,
  per-element normalisation) and the two derived sequences \<open>filteredPlaces\<close> and
  \<open>sortedPlaces\<close>.

  JavaScript numbers are idealised as \<^typ>\<open>real\<close> (no rounding error, no NaN); a value that
  may be \<open>undefined\<close> is an \<^typ>\<open>'a option\<close>; the host's random source, clock, geolocation
  and network are explicit inputs.
\<close>

subsection \<open>JavaScript values: truthiness and \<open>||\<close>\<close>

text \<open>\<open>undefined\<close>, the number \<open>0\<close> and the empty string are falsy.\<close>

definition truthyNum :: "real option \<Rightarrow> bool" where
  "truthyNum v = (case v of None \<Rightarrow> False | Some x \<Rightarrow> x \<noteq> 0)"

definition truthyStr :: "string option \<Rightarrow> bool" where
  "truthyStr v = (case v of None \<Rightarrow> False | Some s \<Rightarrow> s \<noteq> [])"

definition orNum :: "real option \<Rightarrow> real option \<Rightarrow> real option" where
  "orNum a b = (if truthyNum a then a else b)"

definition orStr :: "string option \<Rightarrow> string option \<Rightarrow> string option" where
  "orStr a b = (if truthyStr a then a else b)"

text \<open>\<open>a || 'literal'\<close>: the right operand is always a string.\<close>

definition orElse :: "string option \<Rightarrow> string \<Rightarrow> string" where
  "orElse a d = (case a of None \<Rightarrow> d | Some s \<Rightarrow> if s \<noteq> [] then s else d)"

definition arrayIncludes :: "'a list \<Rightarrow> 'a \<Rightarrow> bool" where
  "arrayIncludes xs x = (x \<in> set xs)"

subsection \<open>Data\<close>

text \<open>A raw element of the response: \<open>{id, lat?, lon?, center?: {lat, lon}, tags?}\<close>.\<close>

record center =
  lat :: "real option"
  lon :: "real option"

record element =
  id' :: int
  lat :: "real option"
  lon :: "real option"
  center :: "center option"
  tags :: "(string \<rightharpoonup> string) option"

text \<open>The user's position \<open>{lat, lng}\<close>.\<close>

record coords =
  lat :: real
  lng :: real

text \<open>The object returned by the \<open>map\<close> callback (lines 149--166).\<close>

record place =
  id' :: int
  name :: string
  address :: string
  rating :: real
  userRatingsTotal :: int
  priceLevel :: int
  distance :: real
  openNow :: bool
  location :: coords
  amenity :: "string option"
  cuisine :: string
  phone :: "string option"
  website :: "string option"
  osmId :: int

subsection \<open>\<open>calculateDistance\<close> (lines 64--73)\<close>

text \<open>\<open>Math.atan2(y, x)\<close>: the angle of the point \<open>(x, y)\<close>, in \<open>(-\<pi>, \<pi>]\<close>.\<close>

definition atan2 :: "real \<Rightarrow> real \<Rightarrow> real" where
  "atan2 y x =
     (if 0 < x then arctan (y / x)
      else if x < 0 then (if 0 \<le> y then arctan (y / x) + pi else arctan (y / x) - pi)
      else if 0 < y then pi / 2
      else if y < 0 then - (pi / 2)
      else 0)"

definition calculateDistance :: "real \<Rightarrow> real \<Rightarrow> real \<Rightarrow> real \<Rightarrow> real" where
  "calculateDistance lat1 lon1 lat2 lon2 =
     (let R = 6371;
          dLat = (lat2 - lat1) * pi / 180;
          dLon = (lon2 - lon1) * pi / 180;
          a = sin (dLat / 2) * sin (dLat / 2) +
              cos (lat1 * pi / 180) * cos (lat2 * pi / 180) *
              sin (dLon / 2) * sin (dLon / 2);
          c = 2 * atan2 (sqrt a) (sqrt (1 - a))
      in R * c)"

subsection \<open>Normalising one element (the \<open>map\<close> callback, lines 120--167)\<close>

text \<open>
  \<open>parseFloat(x.toFixed(1))\<close>: \<open>toFixed(1)\<close> picks the integer \<open>n\<close> with \<open>n / 10\<close> closest to
  the magnitude of \<open>x\<close>, the larger one on a tie, and keeps the sign.
\<close>

definition toFixed1 :: "real \<Rightarrow> real" where
  "toFixed1 x =
     (if x < 0 then - (of_int \<lfloor>(- x) * 10 + 1 / 2\<rfloor> / 10)
      else of_int \<lfloor>x * 10 + 1 / 2\<rfloor> / 10)"

text \<open>Lines 128, 155 and 129, from the draws \<open>U\<close> and \<open>V\<close> of \<open>Math.random()\<close>.\<close>

definition synthRating :: "real \<Rightarrow> real" where
  "synthRating U = toFixed1 (3.5 + U * 1.5)"

definition synthReviewCount :: "real \<Rightarrow> int" where
  "synthReviewCount V = \<lfloor>V * 500\<rfloor> + 20"

text \<open>Lines 131--137: four assignments in sequence, a later one overwrites an earlier one.\<close>

definition expensiveCuisines :: "string list" where
  "expensiveCuisines = [''french'', ''japanese'', ''italian'', ''sushi'']"

definition derivePriceLevel :: "string option \<Rightarrow> string option \<Rightarrow> int" where
  "derivePriceLevel amenityTag cuisineTag =
     (let p0 = 2;
          p1 = (if amenityTag = Some ''fast_food'' then 1 else p0);
          p2 = (if cuisineTag = Some ''fine_dining'' then 4 else p1);
          p3 = (if amenityTag = Some ''restaurant'' \<and> truthyStr cuisineTag
                then (if arrayIncludes expensiveCuisines (the cuisineTag) then 3 else 2)
                else p2)
      in p3)"

text \<open>Lines 139--147, at the local hour \<open>hour\<close> read from the clock.\<close>

definition deriveOpenNow :: "string option \<Rightarrow> int \<Rightarrow> bool" where
  "deriveOpenNow amenityTag hour =
     (if amenityTag = Some ''cafe'' then hour \<ge> 7 \<and> hour < 22
      else if amenityTag = Some ''restaurant''
        then (hour \<ge> 11 \<and> hour < 15) \<or> (hour \<ge> 17 \<and> hour < 23)
      else if amenityTag = Some ''bar'' then hour \<ge> 16 \<and> hour < 2
      else True)"

text \<open>Lines 152--154.\<close>

definition composeAddress :: "(string \<rightharpoonup> string) \<Rightarrow> string" where
  "composeAddress t =
     (if truthyStr (t ''addr:street'')
      then orElse (t ''addr:housenumber'') [] @ '' '' @ the (t ''addr:street'')
      else orElse (t ''addr:city'') ''Address not available'')"

text \<open>Lines 121--124: the coordinate of an element, \<open>None\<close> where the callback returns \<open>null\<close>.\<close>

definition resolveCoordinate :: "element \<Rightarrow> (real \<times> real) option" where
  "resolveCoordinate e =
     (let lat = orNum (element.lat e) (case element.center e of None \<Rightarrow> None | Some c \<Rightarrow> center.lat c);
          lon = orNum (element.lon e) (case element.center e of None \<Rightarrow> None | Some c \<Rightarrow> center.lon c)
      in if \<not> truthyNum lat \<or> \<not> truthyNum lon then None else Some (the lat, the lon))"

text \<open>
  The callback on one element. It reads \<open>Math.random()\<close> twice, and only after the coordinate
  check: \<open>random\<close> is the sequence of draws and \<open>k\<close> the number of draws made so far; the
  callback returns the new count. The test of line 119 has run before, so \<open>tags\<close> is present;
  on an element without tags (never passed in) the model yields \<open>null\<close>.
\<close>

definition mapElement ::
  "(nat \<Rightarrow> real) \<Rightarrow> int \<Rightarrow> coords \<Rightarrow> element \<Rightarrow> nat \<Rightarrow> place option \<times> nat" where
  "mapElement random hour loc e k =
     (case element.tags e of None \<Rightarrow> (None, k) | Some t \<Rightarrow>
        (case resolveCoordinate e of None \<Rightarrow> (None, k) | Some (la, lo) \<Rightarrow>
           (Some \<lparr> place.id' = element.id' e,
                   name = the (t ''name''),
                   address = composeAddress t,
                   rating = synthRating (random k),
                   userRatingsTotal = synthReviewCount (random (k + 1)),
                   priceLevel = derivePriceLevel (t ''amenity'') (t ''cuisine''),
                   distance = calculateDistance (coords.lat loc) (lng loc) la lo,
                   openNow = deriveOpenNow (t ''amenity'') hour,
                   location = \<lparr> coords.lat = la, lng = lo \<rparr>,
                   amenity = t ''amenity'',
                   cuisine = orElse (t ''cuisine'') ''Various'',
                   phone = orStr (t ''phone'') (t ''contact:phone''),
                   website = orStr (t ''website'') (t ''contact:website''),
                   osmId = element.id' e \<rparr>,
            k + 2)))"

subsection \<open>\<open>processedPlaces\<close> (lines 118--168)\<close>

text \<open>Line 119: \<open>element.tags && element.tags.name\<close>.\<close>

definition hasName :: "element \<Rightarrow> bool" where
  "hasName e = (case element.tags e of None \<Rightarrow> False | Some t \<Rightarrow> truthyStr (t ''name''))"

text \<open>\<open>Array.prototype.map\<close>, left to right, threading the count of random draws.\<close>

fun mapElements ::
  "(nat \<Rightarrow> real) \<Rightarrow> int \<Rightarrow> coords \<Rightarrow> element list \<Rightarrow> nat \<Rightarrow> place option list" where
  "mapElements random hour loc [] k = []"
| "mapElements random hour loc (e # es) k =
     (case mapElement random hour loc e k of
        (p, k') \<Rightarrow> p # mapElements random hour loc es k')"

definition processedPlaces ::
  "(nat \<Rightarrow> real) \<Rightarrow> int \<Rightarrow> coords \<Rightarrow> element list \<Rightarrow> place list" where
  "processedPlaces random hour loc elements =
     map the (filter (\<lambda>p. p \<noteq> None)
       (mapElements random hour loc (filter hasName elements) 0))"

subsection \<open>\<open>filteredPlaces\<close> and \<open>sortedPlaces\<close> (lines 188--207)\<close>

definition keepPlace :: "int list \<Rightarrow> real \<Rightarrow> place \<Rightarrow> bool" where
  "keepPlace priceFilter ratingFilter p =
     (if \<not> arrayIncludes priceFilter (priceLevel p) then False
      else if rating p < ratingFilter then False
      else True)"

definition filteredPlaces :: "place list \<Rightarrow> int list \<Rightarrow> real \<Rightarrow> place list" where
  "filteredPlaces places priceFilter ratingFilter =
     filter (keepPlace priceFilter ratingFilter) places"

text \<open>
  \<open>Array.prototype.sort(compare)\<close> is the host's: ECMAScript requires a stable sort that puts
  \<open>a\<close> before \<open>b\<close> when \<open>compare(a, b) < 0\<close>. For the comparators used here, differences of
  one numeric key, that determines the result; it is computed by stable insertion.
\<close>

fun insertBy :: "('a \<Rightarrow> 'a \<Rightarrow> real) \<Rightarrow> 'a \<Rightarrow> 'a list \<Rightarrow> 'a list" where
  "insertBy compare x [] = [x]"
| "insertBy compare x (y # ys) =
     (if compare x y \<le> 0 then x # y # ys else y # insertBy compare x ys)"

definition arraySort :: "('a \<Rightarrow> 'a \<Rightarrow> real) \<Rightarrow> 'a list \<Rightarrow> 'a list" where
  "arraySort compare xs = foldr (insertBy compare) xs []"

text \<open>The comparator of lines 194--207, a \<open>switch\<close> on \<open>sortBy\<close>.\<close>

definition comparePlaces :: "string \<Rightarrow> place \<Rightarrow> place \<Rightarrow> real" where
  "comparePlaces sortBy a b =
     (if sortBy = ''distance'' then distance a - distance b
      else if sortBy = ''rating'' then rating b - rating a
      else if sortBy = ''price_low'' then of_int (priceLevel a - priceLevel b)
      else if sortBy = ''price_high'' then of_int (priceLevel b - priceLevel a)
      else 0)"

definition sortedPlaces :: "string \<Rightarrow> place list \<Rightarrow> place list" where
  "sortedPlaces sortBy filtered = arraySort (comparePlaces sortBy) filtered"

subsection \<open>\<open>MOOD_PRESETS\<close> and the query text (lines 16--41, 84--102)\<close>

text \<open>
  The presets, without their \<open>label\<close> (an emoji and a word, used by the buttons only);
  the field \<open>keywords\<close> of the source is \<open>searchKeywords\<close> here.
  \<open>MOOD_PRESETS[mood]\<close> is \<open>undefined\<close> for any other key.
\<close>

record moodConfig =
  tags :: "string list"
  searchKeywords :: string
  description :: string

definition MOOD_PRESETS :: "string \<rightharpoonup> moodConfig" where
  "MOOD_PRESETS =
     [''work'' \<mapsto> \<lparr> tags = [''cafe'', ''coworking_space'', ''library''],
                      searchKeywords = ''cafe coworking wifi'',
                      description = ''Quiet places with good wifi'' \<rparr>,
      ''date'' \<mapsto> \<lparr> tags = [''restaurant'', ''cafe'', ''bar''],
                      searchKeywords = ''restaurant romantic dining'',
                      description = ''Romantic spots with ambiance'' \<rparr>,
      ''quickBite'' \<mapsto> \<lparr> tags = [''fast_food'', ''restaurant'', ''cafe''],
                      searchKeywords = ''fast food quick restaurant'',
                      description = ''Fast and convenient eats'' \<rparr>,
      ''budget'' \<mapsto> \<lparr> tags = [''fast_food'', ''cafe'', ''restaurant''],
                      searchKeywords = ''cheap affordable budget restaurant'',
                      description = ''Affordable options'' \<rparr>]"

text \<open>
  The template literal of lines 88--91 for one tag. \<open>str\<close> is the host's conversion of a
  number to text, applied by \<open>${...}\<close>.
\<close>

definition tagQuery :: "(real \<Rightarrow> string) \<Rightarrow> real \<Rightarrow> coords \<Rightarrow> string \<Rightarrow> string" where
  \<open>tagQuery str radiusInMeters loc tag =
     ''\<newline>          node["amenity"="'' @ tag @ ''"](around:'' @ str radiusInMeters @ '','' @
       str (coords.lat loc) @ '','' @ str (lng loc) @ '');'' @
     ''\<newline>          way["amenity"="'' @ tag @ ''"](around:'' @ str radiusInMeters @ '','' @
       str (coords.lat loc) @ '','' @ str (lng loc) @ '');'' @
     ''\<newline>        ''\<close>

definition overpassQuery :: "(real \<Rightarrow> string) \<Rightarrow> moodConfig \<Rightarrow> real \<Rightarrow> coords \<Rightarrow> string" where
  \<open>overpassQuery str moodConfig radiusInMeters loc =
     (let queries = concat (map (tagQuery str radiusInMeters loc) (tags moodConfig))
      in ''\<newline>        [out:json][timeout:25];'' @
         ''\<newline>        ('' @
         ''\<newline>          '' @ queries @
         ''\<newline>        );'' @
         ''\<newline>        out body;'' @
         ''\<newline>        >;'' @
         ''\<newline>        out skel qt;'' @
         ''\<newline>      '')\<close>

subsection \<open>The host\<close>

text \<open>
  What an awaited promise does: it stays pending, rejects with an error (its \<open>message\<close>) or
  resolves with a value.
\<close>

datatype 'a settled = Pending | Rejected string | Resolved 'a

text \<open>
  \<open>navigator.geolocation\<close>: absent, or \<open>getCurrentPosition\<close> calls neither callback, the
  error callback, or the success callback with a position.
\<close>

datatype geolocation = Unsupported | Silent | Refused | Fix real real

text \<open>
  A response of \<open>fetch\<close>: \<open>ok\<close>, and what \<open>json()\<close> settles to, reduced to the
  \<open>elements\<close> property of the parsed body (\<open>None\<close> when the body has none).
\<close>

record response =
  ok :: bool
  json :: "element list option settled"

text \<open>
  Everything \<open>searchPlacesOverpass\<close> takes from its environment. \<open>typeErrorMessage\<close> is the
  message of the TypeError the engine raises on reading a property of \<open>undefined\<close>.
\<close>

record host =
  geolocation :: geolocation
  fetch :: "string \<Rightarrow> response settled"
  mathRandom :: "nat \<Rightarrow> real"
  getHours :: int
  numberToString :: "real \<Rightarrow> string"
  typeErrorMessage :: string

subsection \<open>\<open>getUserLocation\<close> (lines 43--62)\<close>

definition getUserLocation :: "geolocation \<Rightarrow> coords settled" where
  "getUserLocation g =
     (case g of
        Unsupported \<Rightarrow> Rejected ''Geolocation not supported''
      | Silent \<Rightarrow> Pending
      | Refused \<Rightarrow> Rejected ''Please enable location access to find nearby places''
      | Fix latitude longitude \<Rightarrow> Resolved \<lparr> coords.lat = latitude, lng = longitude \<rparr>)"

subsection \<open>\<open>searchPlacesOverpass\<close> (lines 75--181)\<close>

text \<open>
  The component state the function writes, and with it what the function sends to
  \<open>console.error\<close> (line 176, in the \<open>catch\<close> block only): the messages of the errors
  logged so far.
\<close>

record appState =
  places :: "place list"
  loading :: bool
  error :: string
  userLocation :: "coords option"
  consoleErrors :: "string list"

text \<open>Lines 84--102: the query, or the TypeError of \<open>moodConfig.tags\<close> on an unknown mood.\<close>

definition buildQuery :: "host \<Rightarrow> string \<Rightarrow> real \<Rightarrow> coords \<Rightarrow> string + string" where
  "buildQuery h mood searchRadius loc =
     (case MOOD_PRESETS mood of
        None \<Rightarrow> Inl (typeErrorMessage h)
      | Some moodConfig \<Rightarrow>
          (let radiusInMeters = searchRadius
           in Inr (overpassQuery (numberToString h) moodConfig radiusInMeters loc)))"

text \<open>The \<open>finally\<close> block, and the \<open>catch\<close> block followed by it.\<close>

definition finallyBlock :: "appState \<Rightarrow> appState" where
  "finallyBlock st = st\<lparr> loading := False \<rparr>"

definition catchBlock :: "string \<Rightarrow> appState \<Rightarrow> appState" where
  "catchBlock message st =
     finallyBlock (st\<lparr> consoleErrors := consoleErrors st @ [message],
                       error := orElse (Some message) ''Failed to fetch places. Please try again.'' \<rparr>)"

text \<open>
  The state once the function has run as far as it gets: to its end, or to an \<open>await\<close> that
  never settles (then \<open>loading\<close> stays set).
\<close>

definition searchPlacesOverpass :: "host \<Rightarrow> string \<Rightarrow> real \<Rightarrow> appState \<Rightarrow> appState" where
  "searchPlacesOverpass h mood searchRadius st =
     (let st1 = st\<lparr> loading := True, error := [], places := [] \<rparr>
      in case getUserLocation (geolocation h) of
           Pending \<Rightarrow> st1
         | Rejected m \<Rightarrow> catchBlock m st1
         | Resolved loc \<Rightarrow>
             (let st2 = st1\<lparr> userLocation := Some loc \<rparr>
              in case buildQuery h mood searchRadius loc of
                   Inl m \<Rightarrow> catchBlock m st2
                 | Inr body \<Rightarrow>
                     (case fetch h body of
                        Pending \<Rightarrow> st2
                      | Rejected m \<Rightarrow> catchBlock m st2
                      | Resolved response \<Rightarrow>
                          if \<not> ok response then catchBlock ''Failed to fetch places data'' st2
                          else
                            (case json response of
                               Pending \<Rightarrow> st2
                             | Rejected m \<Rightarrow> catchBlock m st2
                             | Resolved None \<Rightarrow> catchBlock (typeErrorMessage h) st2
                             | Resolved (Some elements) \<Rightarrow>
                                 (let processed =
                                        processedPlaces (mathRandom h) (getHours h) loc elements;
                                      st3 = st2\<lparr> places := processed \<rparr>;
                                      st4 = (if length processed = 0
                                             then st3\<lparr> error := ''No places found nearby. Try increasing the search radius or selecting a different mood.'' \<rparr>
                                             else st3)
                                  in finallyBlock st4)))))"

text \<open>Line 271: the red message box is rendered when \<open>error\<close> is a non-empty string.\<close>

definition showsError :: "appState \<Rightarrow> bool" where
  "showsError st = (error st \<noteq> [])"

subsection \<open>Arrays as objects: the store\<close>

text \<open>
  \<open>sort\<close> reorders its array in place, so whether \<open>places\<close> survives depends on which array
  is sorted. Arrays live in a store, at references; \<open>filter\<close> and the spread \<open>[...a]\<close>
  allocate a new array, \<open>sort\<close> overwrites the one it is called on and returns its reference.
  An operation on a reference that holds no array yields \<open>None\<close>.
\<close>

record store =
  arrays :: "nat \<rightharpoonup> place list"
  nextRef :: nat

definition newArray :: "place list \<Rightarrow> store \<Rightarrow> nat \<times> store" where
  "newArray xs s = (nextRef s, s\<lparr> arrays := (arrays s)(nextRef s \<mapsto> xs), nextRef := Suc (nextRef s) \<rparr>)"

definition arrayFilter :: "(place \<Rightarrow> bool) \<Rightarrow> nat \<Rightarrow> store \<Rightarrow> (nat \<times> store) option" where
  "arrayFilter callback r s =
     (case arrays s r of None \<Rightarrow> None | Some xs \<Rightarrow> Some (newArray (filter callback xs) s))"

definition arraySpread :: "nat \<Rightarrow> store \<Rightarrow> (nat \<times> store) option" where
  "arraySpread r s = (case arrays s r of None \<Rightarrow> None | Some xs \<Rightarrow> Some (newArray xs s))"

definition arraySortInPlace ::
  "(place \<Rightarrow> place \<Rightarrow> real) \<Rightarrow> nat \<Rightarrow> store \<Rightarrow> (nat \<times> store) option" where
  "arraySortInPlace compare r s =
     (case arrays s r of
        None \<Rightarrow> None
      | Some xs \<Rightarrow> Some (r, s\<lparr> arrays := (arrays s)(r \<mapsto> arraySort compare xs) \<rparr>))"

text \<open>
  Lines 188--207 on the store: \<open>placesRef\<close> is the array held by the state variable
  \<open>places\<close>; the result is the references of \<open>filteredPlaces\<close> and \<open>sortedPlaces\<close> and the
  store after the render.
\<close>

definition renderLists ::
  "nat \<Rightarrow> int list \<Rightarrow> real \<Rightarrow> string \<Rightarrow> store \<Rightarrow> (nat \<times> nat \<times> store) option" where
  "renderLists placesRef priceFilter ratingFilter sortBy s =
     (case arrayFilter (keepPlace priceFilter ratingFilter) placesRef s of
        None \<Rightarrow> None
      | Some (filteredRef, s1) \<Rightarrow>
          (case arraySpread filteredRef s1 of
             None \<Rightarrow> None
           | Some (copyRef, s2) \<Rightarrow>
               (case arraySortInPlace (comparePlaces sortBy) copyRef s2 of
                  None \<Rightarrow> None
                | Some (sortedRef, s3) \<Rightarrow> Some (filteredRef, sortedRef, s3))))"

subsection \<open>Example data\<close>

text \<open>
  A scenario for the closed examples below: the user at latitude 40, longitude -75, a data
  source that answers every request with the same response, a random source that always
  draws 0.99, the clock at noon. \<open>scenarioNumberToString\<close> lists the texts of the numbers
  that occur in the scenario's queries. \<open>initialState\<close> holds the initial values of lines 6--9
  and an empty console.
\<close>

definition scenarioNumberToString :: "real \<Rightarrow> string" where
  "scenarioNumberToString x =
     (if x = 400 then ''400'' else if x = 2000 then ''2000'' else if x = 6000 then ''6000''
      else if x = 40 then ''40'' else if x = - 75 then ''-75'' else [])"

definition origin :: coords where
  "origin = \<lparr> coords.lat = 40, lng = - 75 \<rparr>"

definition blueCafe :: element where
  "blueCafe = \<lparr> element.id' = 1, lat = Some 40.001, lon = Some (- 75.001), center = None,
                tags = Some [''name'' \<mapsto> ''Blue Cafe'', ''amenity'' \<mapsto> ''cafe''] \<rparr>"

definition equatorCafe :: element where
  "equatorCafe = \<lparr> element.id' = 2, lat = Some 0, lon = Some 10, center = None,
                   tags = Some [''name'' \<mapsto> ''Equator Cafe'', ''amenity'' \<mapsto> ''cafe''] \<rparr>"

definition scenarioHost :: "bool \<Rightarrow> element list \<Rightarrow> host" where
  "scenarioHost okFlag es =
     \<lparr> geolocation = Fix 40 (- 75),
       fetch = (\<lambda>body. Resolved \<lparr> ok = okFlag, json = Resolved (Some es) \<rparr>),
       mathRandom = (\<lambda>n. 99 / 100),
       getHours = 12,
       numberToString = scenarioNumberToString,
       typeErrorMessage = ''Cannot read properties of undefined'' \<rparr>"

definition initialState :: appState where
  "initialState = \<lparr> places = [], loading = False, error = [], userLocation = None,
                    consoleErrors = [] \<rparr>"

definition examplePlace :: "int \<Rightarrow> real \<Rightarrow> int \<Rightarrow> real \<Rightarrow> place" where
  "examplePlace i r p d =
     \<lparr> place.id' = i, name = ''Place'', address = ''Address not available'', rating = r,
       userRatingsTotal = 20, priceLevel = p, distance = d, openNow = True,
       location = origin, amenity = Some ''cafe'', cuisine = ''Various'',
       phone = None, website = None, osmId = i \<rparr>"

definition examplePlaces :: "place list" where
  "examplePlaces = [examplePlace 1 4.2 2 0.3, examplePlace 2 4.8 3 0.9, examplePlace 3 4.2 1 0.1]"

text \<open>A store in which the state variable \<open>places\<close> holds the array at reference 0.\<close>

definition exampleStore :: store where
  "exampleStore = \<lparr> arrays = [0 \<mapsto> examplePlaces], nextRef = 1 \<rparr>"

section \<open>Properties\<close>

subsection \<open>Price level\<close>

text \<open>
  Claim C1, as the code has it. The price level is a function of the two tags \<open>amenity\<close>
  and \<open>cuisine\<close> alone. Leaving aside a restaurant whose cuisine is \<open>fine_dining\<close>: cuisine
  \<open>fine_dining\<close> gives 4, also on a \<open>fast_food\<close> place, since that assignment comes
  second; otherwise a restaurant with a cuisine gives 3 for french, japanese, italian and
  sushi and 2 for anything else; otherwise \<open>fast_food\<close> gives 1; everything else 2.
\<close>

theorem derivePriceLevel_order:
  "\<not> (a = Some ''restaurant'' \<and> c = Some ''fine_dining'') \<Longrightarrow>
   derivePriceLevel a c =
     (if c = Some ''fine_dining'' then 4
      else if a = Some ''restaurant'' \<and> truthyStr c
        then (if the c \<in> set expensiveCuisines then 3 else 2)
      else if a = Some ''fast_food'' then 1
      else 2)"
  by (auto simp add: derivePriceLevel_def Let_def arrayIncludes_def truthyStr_def)

theorem derivePriceLevel_order_witness:
  "derivePriceLevel (Some ''fast_food'') (Some ''fine_dining'') = 4
   \<and> derivePriceLevel (Some ''restaurant'') (Some ''sushi'') = 3
   \<and> derivePriceLevel (Some ''fast_food'') None = 1"
  using derivePriceLevel_order [of "Some ''fast_food''" "Some ''fine_dining''"]
        derivePriceLevel_order [of "Some ''restaurant''" "Some ''sushi''"]
        derivePriceLevel_order [of "Some ''fast_food''" None]
  by (simp add: truthyStr_def expensiveCuisines_def)

text \<open>The claim's own example: \<open>fast_food\<close> with \<open>fine_dining\<close> is tier 4, not 1.\<close>

theorem fast_food_fine_dining_is_four:
  "derivePriceLevel (Some ''fast_food'') (Some ''fine_dining'') = 4
   \<and> derivePriceLevel (Some ''fast_food'') (Some ''fine_dining'') \<noteq> 1"
  by (simp add: derivePriceLevel_def)

text \<open>
  The last assignment also overwrites the 4 of a \<open>fine_dining\<close> restaurant, the case the
  theorem above leaves aside.
\<close>

lemma restaurant_fine_dining:
  "derivePriceLevel (Some ''restaurant'') (Some ''fine_dining'') = 2"
  by (simp add: derivePriceLevel_def truthyStr_def arrayIncludes_def expensiveCuisines_def)

subsection \<open>Open now\<close>

lemma deriveOpenNow_cafe_restaurant_other:
  "(deriveOpenNow (Some ''cafe'') h \<longleftrightarrow> 7 \<le> h \<and> h < 22)
   \<and> (deriveOpenNow (Some ''restaurant'') h \<longleftrightarrow> (11 \<le> h \<and> h < 15) \<or> (17 \<le> h \<and> h < 23))
   \<and> deriveOpenNow None h \<and> deriveOpenNow (Some ''library'') h"
  by (simp add: deriveOpenNow_def)

lemma deriveOpenNow_bar_never: "\<not> deriveOpenNow (Some ''bar'') h"
  by (simp add: deriveOpenNow_def)

text \<open>
  Claim C4. A bar should be open from 16 h until 2 h, across midnight. Line 146 joins the two
  bounds with \<open>&&\<close>, which no hour satisfies: at 20 h and at 1 h a bar is reported closed.
\<close>

theorem bar_closed_in_the_evening:
  "deriveOpenNow (Some ''bar'') 20 = False \<and> deriveOpenNow (Some ''bar'') 1 = False"
  by (simp add: deriveOpenNow_def)

subsection \<open>Synthesised rating and review count\<close>

lemma synthRating_bounds:
  assumes "0 \<le> U" "U < 1"
  shows "7 / 2 \<le> synthRating U \<and> synthRating U \<le> 5"
proof -
  have nn: "\<not> (3.5 + U * 1.5 < 0)" using assms by simp
  have "35 \<le> \<lfloor>(3.5 + U * 1.5) * 10 + 1 / 2\<rfloor>"
    using assms by (simp add: le_floor_iff)
  moreover have "\<lfloor>(3.5 + U * 1.5) * 10 + 1 / 2\<rfloor> \<le> 50"
    using assms by (simp add: floor_le_iff)
  ultimately show ?thesis
    using nn by (simp add: synthRating_def toFixed1_def)
qed

lemma synthReviewCount_bounds:
  assumes "0 \<le> V" "V < 1"
  shows "20 \<le> synthReviewCount V \<and> synthReviewCount V < 520"
  using assms by (simp add: synthReviewCount_def floor_less_iff)

lemma mapElement_ranges:
  assumes "\<forall>n. 0 \<le> random n \<and> random n < 1"
      and "mapElement random hour loc e k = (Some p, k')"
  shows "7 / 2 \<le> rating p \<and> rating p \<le> 5 \<and> 20 \<le> userRatingsTotal p \<and> userRatingsTotal p < 520"
proof -
  from assms(2) have "rating p = synthRating (random k)"
    and "userRatingsTotal p = synthReviewCount (random (k + 1))"
    by (auto simp: mapElement_def split: option.splits)
  with assms(1) show ?thesis
    using synthRating_bounds [of "random k"] synthReviewCount_bounds [of "random (k + 1)"]
    by simp
qed

lemma mapElements_ranges:
  assumes "\<forall>n. 0 \<le> random n \<and> random n < 1"
  shows "Some p \<in> set (mapElements random hour loc es k) \<Longrightarrow>
         7 / 2 \<le> rating p \<and> rating p \<le> 5 \<and> 20 \<le> userRatingsTotal p \<and> userRatingsTotal p < 520"
proof (induction es arbitrary: k)
  case Nil
  then show ?case by simp
next
  case (Cons e es)
  obtain q k' where m: "mapElement random hour loc e k = (q, k')"
    by (cases "mapElement random hour loc e k")
  with Cons.prems have "q = Some p \<or> Some p \<in> set (mapElements random hour loc es k')"
    by auto
  then show ?case
  proof
    assume "q = Some p"
    with m assms show ?thesis by (auto dest: mapElement_ranges)
  next
    assume "Some p \<in> set (mapElements random hour loc es k')"
    then show ?thesis by (rule Cons.IH)
  qed
qed

text \<open>
  Claim C6, as the code has it. For draws in \<open>[0, 1)\<close> the rating, rounded to one decimal,
  lies in the closed interval \<open>[3.5, 5.0]\<close> and the review count is an integer in
  \<open>[20, 520)\<close>; so it is for every place of \<open>processedPlaces\<close>.
\<close>

theorem synthesized_ranges:
  assumes "0 \<le> U" "U < 1" "0 \<le> V" "V < 1"
      and "\<forall>n. 0 \<le> random n \<and> random n < 1"
  shows "7 / 2 \<le> synthRating U \<and> synthRating U \<le> 5
       \<and> 20 \<le> synthReviewCount V \<and> synthReviewCount V < 520
       \<and> list_all (\<lambda>p. 7 / 2 \<le> rating p \<and> rating p \<le> 5
                        \<and> 20 \<le> userRatingsTotal p \<and> userRatingsTotal p < 520)
           (processedPlaces random hour loc elements)"
proof -
  have "list_all (\<lambda>p. 7 / 2 \<le> rating p \<and> rating p \<le> 5
                        \<and> 20 \<le> userRatingsTotal p \<and> userRatingsTotal p < 520)
           (processedPlaces random hour loc elements)"
    unfolding processedPlaces_def list_all_iff
    using mapElements_ranges [OF assms(5)] by auto
  then show ?thesis
    using synthRating_bounds [OF assms(1,2)] synthReviewCount_bounds [OF assms(3,4)] by simp
qed

theorem synthesized_ranges_witness:
  "synthRating (1 / 2) = 43 / 10 \<and> synthRating (1 / 2) \<le> 5 \<and> synthReviewCount (1 / 2) = 270
   \<and> list_all (\<lambda>p. 7 / 2 \<le> rating p \<and> rating p \<le> 5
                        \<and> 20 \<le> userRatingsTotal p \<and> userRatingsTotal p < 520)
           (processedPlaces (mathRandom (scenarioHost True [])) 12 origin [blueCafe])
   \<and> length (processedPlaces (mathRandom (scenarioHost True [])) 12 origin [blueCafe]) = 1"
  using synthesized_ranges [of "1 / 2" "1 / 2" "mathRandom (scenarioHost True [])" 12 origin "[blueCafe]"]
  by (simp add: scenarioHost_def synthRating_def toFixed1_def synthReviewCount_def
      processedPlaces_def hasName_def blueCafe_def truthyStr_def mapElement_def
      resolveCoordinate_def orNum_def truthyNum_def)

text \<open>The upper end is reached: the draw 0.99 gives 4.985, which rounds to 5.0.\<close>

theorem rating_reaches_five:
  "(0::real) \<le> 99 / 100 \<and> (99 / 100 :: real) < 1 \<and> synthRating (99 / 100) = 5
   \<and> \<not> synthRating (99 / 100) < 5
   \<and> map rating (processedPlaces (mathRandom (scenarioHost True [])) 12 origin [blueCafe]) = [5]"
  by (simp add: scenarioHost_def synthRating_def toFixed1_def
      processedPlaces_def hasName_def blueCafe_def truthyStr_def mapElement_def
      resolveCoordinate_def orNum_def truthyNum_def)

subsection \<open>Which elements become places\<close>

lemma mapElements_ids:
  "map place.id' (map the (filter (\<lambda>p. p \<noteq> None) (mapElements random hour loc es k)))
     = map element.id' (filter (\<lambda>e. element.tags e \<noteq> None \<and> resolveCoordinate e \<noteq> None) es)"
proof (induction es arbitrary: k)
  case Nil
  then show ?case by simp
next
  case (Cons e es)
  show ?case
    using Cons.IH
    by (cases "element.tags e"; cases "resolveCoordinate e") (auto simp: mapElement_def)
qed

lemma processedPlaces_ids:
  "map place.id' (processedPlaces random hour loc es)
     = map element.id' (filter (\<lambda>e. hasName e \<and> resolveCoordinate e \<noteq> None) es)"
proof -
  have "(\<lambda>e. hasName e \<and> element.tags e \<noteq> None \<and> resolveCoordinate e \<noteq> None)
          = (\<lambda>e. hasName e \<and> resolveCoordinate e \<noteq> None)"
    by (auto simp: hasName_def split: option.splits)
  then show ?thesis
    unfolding processedPlaces_def mapElements_ids by (simp add: conj_commute)
qed

text \<open>
  Claim C5. An element with a name and the coordinate (0, 10), on the equator, has a
  resolvable coordinate, but line 124 tests \<open>!lat\<close>, which is true of the number 0: the
  element is discarded.
\<close>

theorem zero_coordinate_discarded:
  "hasName equatorCafe \<and> element.lat equatorCafe = Some 0 \<and> element.lon equatorCafe = Some 10
   \<and> processedPlaces random hour loc [equatorCafe] = []"
  by (simp add: processedPlaces_def hasName_def equatorCafe_def truthyStr_def mapElement_def
      resolveCoordinate_def orNum_def truthyNum_def)

subsection \<open>The query and the outcome of a search\<close>

lemma sublist_within_concat_map:
  assumes "x \<in> set xs" and "sublist y (f x)"
  shows "sublist y (pre @ concat (map f xs) @ post)"
proof -
  from assms(1) obtain us vs where xs: "xs = us @ x # vs"
    by (auto simp: in_set_conv_decomp)
  from assms(2) obtain ps ss where fx: "f x = ps @ y @ ss"
    unfolding sublist_def by blast
  have "pre @ concat (map f xs) @ post
          = (pre @ concat (map f us) @ ps) @ y @ (ss @ concat (map f vs) @ post)"
    by (simp add: xs fx)
  then show ?thesis
    unfolding sublist_def by blast
qed

lemma tagQuery_node:
  \<open>sublist (''node["amenity"="'' @ tag @ ''"](around:'' @ str r @ '','' @
             str (coords.lat loc) @ '','' @ str (lng loc) @ '');'')
           (tagQuery str r loc tag)\<close>
  unfolding sublist_def
  apply (rule exI [where x = \<open>''\<newline>          ''\<close>])
  apply (simp add: tagQuery_def)
  done

lemma tagQuery_way:
  \<open>sublist (''way["amenity"="'' @ tag @ ''"](around:'' @ str r @ '','' @
             str (coords.lat loc) @ '','' @ str (lng loc) @ '');'')
           (tagQuery str r loc tag)\<close>
  unfolding sublist_def
  apply (rule exI [where x = \<open>''\<newline>          node["amenity"="'' @ tag @ ''"](around:'' @ str r @
      '','' @ str (coords.lat loc) @ '','' @ str (lng loc) @ '');'' @ ''\<newline>          ''\<close>])
  apply (rule exI [where x = \<open>''\<newline>        ''\<close>])
  apply (simp add: tagQuery_def)
  done

lemma overpassQuery_text:
  \<open>overpassQuery str cfg r loc =
     ''\<newline>        [out:json][timeout:25];\<newline>        (\<newline>          '' @
     concat (map (tagQuery str r loc) (tags cfg)) @
     ''\<newline>        );\<newline>        out body;\<newline>        >;\<newline>        out skel qt;\<newline>      ''\<close>
  by (simp add: overpassQuery_def)

text \<open>
  Claim C3, as the code has it. Query construction checks no range: for a known mood and
  every radius whatsoever the query is built. Its text is the fixed header, then for each tag
  of the mood, in order, a \<open>node\<close> line and a \<open>way\<close> line that both carry that radius after
  \<open>around:\<close>, then the fixed footer; so the two lines of every tag, with the radius as
  given, occur in the query.
\<close>

theorem buildQuery_any_radius:
  assumes "MOOD_PRESETS mood = Some cfg"
  shows \<open>\<exists>q. buildQuery h mood r loc = Inr q
     \<and> q = ''\<newline>        [out:json][timeout:25];\<newline>        (\<newline>          '' @
           concat (map (\<lambda>tag.
             ''\<newline>          node["amenity"="'' @ tag @ ''"](around:'' @ numberToString h r @ '','' @
               numberToString h (coords.lat loc) @ '','' @ numberToString h (lng loc) @ '');'' @
             ''\<newline>          way["amenity"="'' @ tag @ ''"](around:'' @ numberToString h r @ '','' @
               numberToString h (coords.lat loc) @ '','' @ numberToString h (lng loc) @ '');'' @
             ''\<newline>        '') (tags cfg)) @
           ''\<newline>        );\<newline>        out body;\<newline>        >;\<newline>        out skel qt;\<newline>      ''
     \<and> (\<forall>tag \<in> set (tags cfg).
           sublist (''node["amenity"="'' @ tag @ ''"](around:'' @ numberToString h r @ '','' @
                      numberToString h (coords.lat loc) @ '','' @ numberToString h (lng loc) @ '');'') q
         \<and> sublist (''way["amenity"="'' @ tag @ ''"](around:'' @ numberToString h r @ '','' @
                      numberToString h (coords.lat loc) @ '','' @ numberToString h (lng loc) @ '');'') q)\<close>
proof (intro exI conjI ballI)
  show "buildQuery h mood r loc = Inr (overpassQuery (numberToString h) cfg r loc)"
    using assms by (simp add: buildQuery_def)
next
  have "tagQuery (numberToString h) r loc = (\<lambda>tag.
             ''\<newline>          node[\"amenity\"=\"'' @ tag @ ''\"](around:'' @ numberToString h r @ '','' @
               numberToString h (coords.lat loc) @ '','' @ numberToString h (lng loc) @ '');'' @
             ''\<newline>          way[\"amenity\"=\"'' @ tag @ ''\"](around:'' @ numberToString h r @ '','' @
               numberToString h (coords.lat loc) @ '','' @ numberToString h (lng loc) @ '');'' @
             ''\<newline>        '')"
    by (rule ext) (simp add: tagQuery_def)
  then show \<open>overpassQuery (numberToString h) cfg r loc =
           ''\<newline>        [out:json][timeout:25];\<newline>        (\<newline>          '' @
           concat (map (\<lambda>tag.
             ''\<newline>          node["amenity"="'' @ tag @ ''"](around:'' @ numberToString h r @ '','' @
               numberToString h (coords.lat loc) @ '','' @ numberToString h (lng loc) @ '');'' @
             ''\<newline>          way["amenity"="'' @ tag @ ''"](around:'' @ numberToString h r @ '','' @
               numberToString h (coords.lat loc) @ '','' @ numberToString h (lng loc) @ '');'' @
             ''\<newline>        '') (tags cfg)) @
           ''\<newline>        );\<newline>        out body;\<newline>        >;\<newline>        out skel qt;\<newline>      ''\<close>
    by (simp only: overpassQuery_text)
next
  fix tag assume t: "tag \<in> set (tags cfg)"
  show \<open>sublist (''node["amenity"="'' @ tag @ ''"](around:'' @ numberToString h r @ '','' @
                      numberToString h (coords.lat loc) @ '','' @ numberToString h (lng loc) @ '');'')
          (overpassQuery (numberToString h) cfg r loc)\<close>
    unfolding overpassQuery_text
    by (rule sublist_within_concat_map [OF t]) (rule tagQuery_node)
  show \<open>sublist (''way["amenity"="'' @ tag @ ''"](around:'' @ numberToString h r @ '','' @
                      numberToString h (coords.lat loc) @ '','' @ numberToString h (lng loc) @ '');'')
          (overpassQuery (numberToString h) cfg r loc)\<close>
    unfolding overpassQuery_text
    by (rule sublist_within_concat_map [OF t]) (rule tagQuery_way)
qed

theorem buildQuery_any_radius_witness:
  \<open>buildQuery (scenarioHost True []) ''work'' 400 origin
     = Inr (overpassQuery scenarioNumberToString (the (MOOD_PRESETS ''work'')) 400 origin)
   \<and> sublist ''node["amenity"="cafe"](around:400,40,-75);''
        (overpassQuery scenarioNumberToString (the (MOOD_PRESETS ''work'')) 400 origin)
   \<and> sublist ''way["amenity"="library"](around:400,40,-75);''
        (overpassQuery scenarioNumberToString (the (MOOD_PRESETS ''work'')) 400 origin)\<close>
  using buildQuery_any_radius [of "''work''" "the (MOOD_PRESETS ''work'')" "scenarioHost True []"
          400 origin]
  by (auto simp add: MOOD_PRESETS_def scenarioHost_def scenarioNumberToString_def origin_def
      buildQuery_def)

text \<open>Radius 400 and radius 6000 are not rejected.\<close>

theorem radius_out_of_range_accepted:
  "buildQuery (scenarioHost True []) ''work'' 400 origin
     = Inr (overpassQuery scenarioNumberToString (the (MOOD_PRESETS ''work'')) 400 origin)
   \<and> buildQuery (scenarioHost True []) ''work'' 6000 origin
     = Inr (overpassQuery scenarioNumberToString (the (MOOD_PRESETS ''work'')) 6000 origin)"
  by (simp add: buildQuery_def MOOD_PRESETS_def scenarioHost_def)

lemma catchBlock_error: "error (catchBlock m st) \<noteq> [] \<and> loading (catchBlock m st) = False"
  by (simp add: catchBlock_def finallyBlock_def orElse_def)

text \<open>
  Claim C2, as the code has it. With a position and a known mood, when the request is
  answered: a response that is not \<open>ok\<close>, whatever its body, goes through the \<open>catch\<close>
  block, which logs the error, and ends with no places, \<open>loading\<close> reset and the message
  \<open>Failed to fetch places data\<close>; an \<open>ok\<close> response whose body has an \<open>elements\<close> array
  does not go through the \<open>catch\<close> block (nothing is logged) and ends with the processed
  places, \<open>loading\<close> reset, and \<open>error\<close> set to \<open>No places found nearby ...\<close> if there is
  no usable element and left empty otherwise. Conversely, for every host, mood, radius and
  state, a run that ends with \<open>loading\<close> reset and \<open>error\<close> empty has logged nothing and
  got an \<open>ok\<close> response with at least one usable element.
\<close>

theorem response_outcomes:
  "(geolocation h = Fix la lo \<and> MOOD_PRESETS mood = Some cfg
      \<and> fetch h (overpassQuery (numberToString h) cfg r \<lparr> coords.lat = la, lng = lo \<rparr>)
            = Resolved resp
    \<longrightarrow>
      (\<not> ok resp \<longrightarrow>
         searchPlacesOverpass h mood r st =
           st\<lparr> loading := False, error := ''Failed to fetch places data'', places := [],
               userLocation := Some \<lparr> coords.lat = la, lng = lo \<rparr>,
               consoleErrors := consoleErrors st @ [''Failed to fetch places data''] \<rparr>)
    \<and> (ok resp \<and> json resp = Resolved (Some es) \<longrightarrow>
         searchPlacesOverpass h mood r st =
           st\<lparr> loading := False,
               error := (if processedPlaces (mathRandom h) (getHours h)
                              \<lparr> coords.lat = la, lng = lo \<rparr> es = []
                         then ''No places found nearby. Try increasing the search radius or selecting a different mood.''
                         else []),
               places := processedPlaces (mathRandom h) (getHours h)
                              \<lparr> coords.lat = la, lng = lo \<rparr> es,
               userLocation := Some \<lparr> coords.lat = la, lng = lo \<rparr> \<rparr>
         \<and> consoleErrors (searchPlacesOverpass h mood r st) = consoleErrors st))
   \<and> (loading (searchPlacesOverpass h mood r st) = False
        \<and> error (searchPlacesOverpass h mood r st) = []
      \<longrightarrow>
        consoleErrors (searchPlacesOverpass h mood r st) = consoleErrors st
      \<and> (\<exists>la' lo' cfg' resp' es'.
            geolocation h = Fix la' lo' \<and> MOOD_PRESETS mood = Some cfg'
          \<and> fetch h (overpassQuery (numberToString h) cfg' r \<lparr> coords.lat = la', lng = lo' \<rparr>)
               = Resolved resp'
          \<and> ok resp' \<and> json resp' = Resolved (Some es')
          \<and> processedPlaces (mathRandom h) (getHours h) \<lparr> coords.lat = la', lng = lo' \<rparr> es' \<noteq> []
          \<and> places (searchPlacesOverpass h mood r st)
               = processedPlaces (mathRandom h) (getHours h) \<lparr> coords.lat = la', lng = lo' \<rparr> es'))"
proof (intro conjI impI)
  assume a: "geolocation h = Fix la lo \<and> MOOD_PRESETS mood = Some cfg
      \<and> fetch h (overpassQuery (numberToString h) cfg r \<lparr> coords.lat = la, lng = lo \<rparr>)
            = Resolved resp"
  {
    assume "\<not> ok resp"
    with a show "searchPlacesOverpass h mood r st =
           st\<lparr> loading := False, error := ''Failed to fetch places data'', places := [],
               userLocation := Some \<lparr> coords.lat = la, lng = lo \<rparr>,
               consoleErrors := consoleErrors st @ [''Failed to fetch places data''] \<rparr>"
      by (simp add: searchPlacesOverpass_def getUserLocation_def buildQuery_def Let_def
          catchBlock_def finallyBlock_def orElse_def)
  }
  {
    assume b: "ok resp \<and> json resp = Resolved (Some es)"
    with a show "searchPlacesOverpass h mood r st =
           st\<lparr> loading := False,
               error := (if processedPlaces (mathRandom h) (getHours h)
                              \<lparr> coords.lat = la, lng = lo \<rparr> es = []
                         then ''No places found nearby. Try increasing the search radius or selecting a different mood.''
                         else []),
               places := processedPlaces (mathRandom h) (getHours h)
                              \<lparr> coords.lat = la, lng = lo \<rparr> es,
               userLocation := Some \<lparr> coords.lat = la, lng = lo \<rparr> \<rparr>"
      by (simp add: searchPlacesOverpass_def getUserLocation_def buildQuery_def Let_def
          finallyBlock_def)
    from a b show "consoleErrors (searchPlacesOverpass h mood r st) = consoleErrors st"
      by (simp add: searchPlacesOverpass_def getUserLocation_def buildQuery_def Let_def
          finallyBlock_def)
  }
next
  assume c: "loading (searchPlacesOverpass h mood r st) = False
        \<and> error (searchPlacesOverpass h mood r st) = []"
  then show "consoleErrors (searchPlacesOverpass h mood r st) = consoleErrors st"
    using catchBlock_error
    by (auto simp add: searchPlacesOverpass_def getUserLocation_def buildQuery_def Let_def
        finallyBlock_def
        split: geolocation.splits settled.splits option.splits sum.splits if_splits)
  from c show "\<exists>la' lo' cfg' resp' es'.
            geolocation h = Fix la' lo' \<and> MOOD_PRESETS mood = Some cfg'
          \<and> fetch h (overpassQuery (numberToString h) cfg' r \<lparr> coords.lat = la', lng = lo' \<rparr>)
               = Resolved resp'
          \<and> ok resp' \<and> json resp' = Resolved (Some es')
          \<and> processedPlaces (mathRandom h) (getHours h) \<lparr> coords.lat = la', lng = lo' \<rparr> es' \<noteq> []
          \<and> places (searchPlacesOverpass h mood r st)
               = processedPlaces (mathRandom h) (getHours h) \<lparr> coords.lat = la', lng = lo' \<rparr> es'"
    using catchBlock_error
    by (auto simp add: searchPlacesOverpass_def getUserLocation_def buildQuery_def Let_def
        finallyBlock_def
        split: geolocation.splits settled.splits option.splits sum.splits if_splits)
qed

theorem response_outcomes_witness:
  "searchPlacesOverpass (scenarioHost True []) ''work'' 2000 initialState =
     initialState\<lparr> loading := False,
       error := ''No places found nearby. Try increasing the search radius or selecting a different mood.'',
       places := [], userLocation := Some origin \<rparr>
   \<and> searchPlacesOverpass (scenarioHost False []) ''work'' 2000 initialState =
     initialState\<lparr> loading := False, error := ''Failed to fetch places data'',
       places := [], userLocation := Some origin,
       consoleErrors := [''Failed to fetch places data''] \<rparr>
   \<and> error (searchPlacesOverpass (scenarioHost True [blueCafe]) ''work'' 2000 initialState) = []
   \<and> loading (searchPlacesOverpass (scenarioHost True [blueCafe]) ''work'' 2000 initialState) = False
   \<and> consoleErrors (searchPlacesOverpass (scenarioHost True [blueCafe]) ''work'' 2000 initialState) = []
   \<and> map name (places (searchPlacesOverpass (scenarioHost True [blueCafe]) ''work'' 2000 initialState))
       = [''Blue Cafe'']"
  using response_outcomes [where h = "scenarioHost True []" and la = 40 and lo = "- 75"
          and mood = "''work''" and cfg = "the (MOOD_PRESETS ''work'')" and r = 2000
          and resp = "\<lparr> ok = True, json = Resolved (Some []) \<rparr>" and es = "[]"
          and st = initialState]
        response_outcomes [where h = "scenarioHost False []" and la = 40 and lo = "- 75"
          and mood = "''work''" and cfg = "the (MOOD_PRESETS ''work'')" and r = 2000
          and resp = "\<lparr> ok = False, json = Resolved (Some []) \<rparr>" and es = "[]"
          and st = initialState]
        response_outcomes [where h = "scenarioHost True [blueCafe]" and la = 40 and lo = "- 75"
          and mood = "''work''" and cfg = "the (MOOD_PRESETS ''work'')" and r = 2000
          and resp = "\<lparr> ok = True, json = Resolved (Some [blueCafe]) \<rparr>" and es = "[blueCafe]"
          and st = initialState]
  by (simp add: MOOD_PRESETS_def scenarioHost_def origin_def processedPlaces_def
      hasName_def blueCafe_def truthyStr_def mapElement_def resolveCoordinate_def orNum_def
      truthyNum_def initialState_def)

text \<open>An empty \<open>elements\<close> array sets the error message: the message box is shown.\<close>

theorem empty_result_shows_error:
  "showsError (searchPlacesOverpass (scenarioHost True []) ''work'' 2000 initialState)
   \<and> places (searchPlacesOverpass (scenarioHost True []) ''work'' 2000 initialState) = []
   \<and> loading (searchPlacesOverpass (scenarioHost True []) ''work'' 2000 initialState) = False"
  by (simp add: searchPlacesOverpass_def scenarioHost_def getUserLocation_def buildQuery_def
      MOOD_PRESETS_def processedPlaces_def finallyBlock_def showsError_def initialState_def)

subsection \<open>Filtering\<close>

text \<open>
  Claim C8. For every place list and every choice of price tiers and minimum rating, the
  filtered sequence is exactly the sub-sequence of the places whose price level is one of the
  selected tiers and whose rating is at least the minimum: nothing that satisfies both tests
  is dropped and nothing that fails one survives.
\<close>

theorem filteredPlaces_iff:
  "filteredPlaces ps priceFilter ratingFilter =
     filter (\<lambda>p. priceLevel p \<in> set priceFilter \<and> ratingFilter \<le> rating p) ps
   \<and> (p \<in> set (filteredPlaces ps priceFilter ratingFilter) \<longleftrightarrow>
        p \<in> set ps \<and> priceLevel p \<in> set priceFilter \<and> ratingFilter \<le> rating p)"
proof -
  have k: "keepPlace priceFilter ratingFilter =
             (\<lambda>q. priceLevel q \<in> set priceFilter \<and> ratingFilter \<le> rating q)"
    by (rule ext) (simp add: keepPlace_def arrayIncludes_def not_less)
  show ?thesis
    unfolding filteredPlaces_def k by simp
qed

subsection \<open>Sorting\<close>

text \<open>
  With the comparator of \<open>rating\<close> the sort is the library's stable \<open>sort_key\<close> on the
  negated rating; with a comparator that is constantly 0 it moves nothing.
\<close>

lemma insertBy_insort_key:
  assumes "\<And>a b. (compare a b \<le> 0) = (f a \<le> f b)"
  shows "insertBy compare x ys = insort_key f x ys"
  by (induction ys) (simp_all add: assms)

lemma arraySort_sort_key:
  assumes "\<And>a b. (compare a b \<le> 0) = (f a \<le> f b)"
  shows "arraySort compare xs = sort_key f xs"
proof -
  have "insertBy compare = insort_key f"
    by (intro ext) (rule insertBy_insort_key [OF assms])
  then show ?thesis by (simp add: arraySort_def sort_key_def)
qed

lemma sortedPlaces_rating_eq:
  "sortedPlaces ''rating'' ps = sort_key (\<lambda>p. - rating p) ps"
  unfolding sortedPlaces_def
  by (rule arraySort_sort_key) (simp add: comparePlaces_def)

lemma insertBy_zero: "(\<And>a b. compare a b = 0) \<Longrightarrow> insertBy compare x ys = x # ys"
  by (cases ys) simp_all

lemma arraySort_zero: "(\<And>a b. compare a b = 0) \<Longrightarrow> arraySort compare xs = xs"
  unfolding arraySort_def by (induction xs) (simp_all add: insertBy_zero)

lemma sortedPlaces_example:
  "map place.id' (sortedPlaces ''rating'' examplePlaces) = [2, 1, 3]"
  by (simp add: sortedPlaces_def arraySort_def comparePlaces_def examplePlaces_def examplePlace_def)

text \<open>
  Claim C9. Sorting by \<open>rating\<close> yields a permutation of the list that is non-increasing in
  rating, and for each rating value the places with that rating keep their relative order;
  a sort key other than the four known ones leaves the list as it is.
\<close>

theorem sortedPlaces_rating_stable:
  "mset (sortedPlaces ''rating'' ps) = mset ps
   \<and> sorted_wrt (\<lambda>a b. rating a \<ge> rating b) (sortedPlaces ''rating'' ps)
   \<and> filter (\<lambda>p. rating p = r) (sortedPlaces ''rating'' ps) = filter (\<lambda>p. rating p = r) ps
   \<and> (sortBy \<notin> {''distance'', ''rating'', ''price_low'', ''price_high''}
        \<longrightarrow> sortedPlaces sortBy ps = ps)"
proof (intro conjI impI)
  show "mset (sortedPlaces ''rating'' ps) = mset ps"
    by (simp add: sortedPlaces_rating_eq)
  have "sorted (map (\<lambda>p. - rating p) (sortedPlaces ''rating'' ps))"
    by (simp add: sortedPlaces_rating_eq)
  then show "sorted_wrt (\<lambda>a b. rating a \<ge> rating b) (sortedPlaces ''rating'' ps)"
    by (simp add: sorted_map)
  have "filter (\<lambda>p. - rating p = - r) (sort_key (\<lambda>p. - rating p) ps)
          = filter (\<lambda>p. - rating p = - r) ps"
    by (rule sort_key_stable)
  then show "filter (\<lambda>p. rating p = r) (sortedPlaces ''rating'' ps) = filter (\<lambda>p. rating p = r) ps"
    by (simp add: sortedPlaces_rating_eq)
next
  assume "sortBy \<notin> {''distance'', ''rating'', ''price_low'', ''price_high''}"
  then have "\<And>a b. comparePlaces sortBy a b = 0"
    by (simp add: comparePlaces_def)
  then show "sortedPlaces sortBy ps = ps"
    unfolding sortedPlaces_def by (rule arraySort_zero)
qed

theorem sortedPlaces_rating_stable_witness:
  "sortedPlaces ''newest'' examplePlaces = examplePlaces
   \<and> mset (sortedPlaces ''rating'' examplePlaces) = mset examplePlaces
   \<and> filter (\<lambda>p. rating p = 4.2) (sortedPlaces ''rating'' examplePlaces)
       = [examplePlace 1 4.2 2 0.3, examplePlace 3 4.2 1 0.1]"
  using sortedPlaces_rating_stable [of examplePlaces "4.2" "''newest''"]
  by (simp add: examplePlaces_def examplePlace_def)

subsection \<open>The stored places are not touched\<close>

text \<open>
  Claim C10. Rendering allocates the filtered array and a copy of it and sorts the copy: for
  every filter setting and sort key the array of \<open>places\<close> is the same afterwards, while
  the two new arrays hold \<open>filteredPlaces\<close> and \<open>sortedPlaces\<close>.
\<close>

theorem renderLists_frame:
  assumes "arrays s placesRef = Some ps" and "placesRef < nextRef s"
  shows "\<exists>filteredRef sortedRef s'.
           renderLists placesRef priceFilter ratingFilter sortBy s = Some (filteredRef, sortedRef, s')
         \<and> arrays s' placesRef = Some ps
         \<and> filteredRef \<noteq> placesRef \<and> sortedRef \<noteq> placesRef \<and> sortedRef \<noteq> filteredRef
         \<and> arrays s' filteredRef = Some (filteredPlaces ps priceFilter ratingFilter)
         \<and> arrays s' sortedRef
             = Some (sortedPlaces sortBy (filteredPlaces ps priceFilter ratingFilter))"
  using assms
  by (simp add: renderLists_def arrayFilter_def arraySpread_def arraySortInPlace_def
      newArray_def filteredPlaces_def sortedPlaces_def)

theorem renderLists_frame_witness:
  "\<exists>filteredRef sortedRef s'.
      renderLists 0 [1, 2, 3, 4] 0 ''rating'' exampleStore = Some (filteredRef, sortedRef, s')
    \<and> arrays s' 0 = Some examplePlaces
    \<and> map_option (map place.id') (arrays s' sortedRef) = Some [2, 1, 3]"
proof -
  have a: "arrays exampleStore 0 = Some examplePlaces" and b: "0 < nextRef exampleStore"
    by (simp_all add: exampleStore_def)
  have f: "filteredPlaces examplePlaces [1, 2, 3, 4] 0 = examplePlaces"
    by (simp add: filteredPlaces_def keepPlace_def arrayIncludes_def examplePlaces_def
        examplePlace_def)
  from renderLists_frame [OF a b, of "[1, 2, 3, 4]" 0 "''rating''"]
  show ?thesis
    unfolding f by (auto simp add: sortedPlaces_example)
qed

text \<open>Sorting the array of \<open>places\<close> itself, without the copy, would change it.\<close>

lemma sort_without_copy_mutates:
  "arrays (snd (the (arraySortInPlace (comparePlaces ''rating'') 0 exampleStore))) 0 \<noteq> Some examplePlaces"
  by (simp add: arraySortInPlace_def exampleStore_def sortedPlaces_def arraySort_def comparePlaces_def examplePlaces_def examplePlace_def)


subsection \<open>Distance\<close>

text \<open>
  Bounds on \<open>\<pi>\<close> from Machin's formula and the alternating series of \<open>arctan\<close>.
\<close>

lemma arctan_series_bounds:
  fixes x :: real
  assumes "0 < x" "x \<le> 1"
  shows "x - x ^ 3 / 3 \<le> arctan x \<and> arctan x \<le> x - x ^ 3 / 3 + x ^ 5 / 5"
proof -
  let ?a = "\<lambda>n. 1 / real (n * 2 + 1) * x ^ (n * 2 + 1)"
  have ax: "\<bar>x\<bar> \<le> 1" using assms by simp
  have z: "?a \<longlonglongrightarrow> 0" by (rule zeroseq_arctan_series [OF ax])
  have m: "monoseq ?a" by (rule monoseq_arctan_series [OF ax])
  have p: "0 < ?a 0" using assms by simp
  have "\<forall>n. (\<Sum>i. (- 1) ^ i * ?a i) \<in> {\<Sum>i<2 * n. (- 1) ^ i * ?a i .. \<Sum>i<2 * n + 1. (- 1) ^ i * ?a i}"
    using summable_Leibniz(2) [OF z m] p by blast
  then have b: "(\<Sum>i. (- 1) ^ i * ?a i) \<in> {\<Sum>i<2 * 1. (- 1) ^ i * ?a i .. \<Sum>i<2 * 1 + 1. (- 1) ^ i * ?a i}"
    by blast
  have s: "arctan x = (\<Sum>i. (- 1) ^ i * ?a i)"
    by (rule arctan_series [OF ax])
  have l: "(\<Sum>i<2 * 1. (- 1) ^ i * ?a i) = x - x ^ 3 / 3"
    by (simp add: eval_nat_numeral)
  have u: "(\<Sum>i<2 * 1 + 1. (- 1) ^ i * ?a i) = x - x ^ 3 / 3 + x ^ 5 / 5"
    by (simp add: eval_nat_numeral)
  from b show ?thesis unfolding s [symmetric] l u by simp
qed

lemma pi_bounds: "3.14 < pi \<and> pi < 3.142"
proof -
  have a5: "(1/5::real) - (1/5) ^ 3 / 3 \<le> arctan (1/5) \<and> arctan (1/5::real) \<le> 1/5 - (1/5) ^ 3 / 3 + (1/5) ^ 5 / 5"
    by (rule arctan_series_bounds) simp_all
  have a239: "(1/239::real) - (1/239) ^ 3 / 3 \<le> arctan (1/239) \<and> arctan (1/239::real) \<le> 1/239 - (1/239) ^ 3 / 3 + (1/239) ^ 5 / 5"
    by (rule arctan_series_bounds) simp_all
  have "pi = 16 * arctan (1/5) - 4 * arctan (1/239)"
    using machin by simp
  with a5 a239 show ?thesis
    by (simp add: power3_eq_cube power_def) 
qed

lemma atan2_sin_cos:
  assumes "0 \<le> t" "t < pi / 2"
  shows "atan2 (sin t) (cos t) = t"
proof -
  have c: "0 < cos t" using assms by (intro cos_gt_zero_pi) simp_all
  have "arctan (sin t / cos t) = arctan (tan t)" by (simp add: tan_def)
  also have "\<dots> = t" using assms by (intro arctan_tan) simp_all
  finally show ?thesis using c by (simp add: atan2_def)
qed

lemma calculateDistance_one_degree: "calculateDistance 0 0 0 1 = 6371 * pi / 180"
proof -
  let ?t = "pi / 360"
  have t: "0 \<le> ?t" "?t < pi / 2" by simp_all
  have s: "0 \<le> sin ?t" using t by (intro sin_ge_zero) simp_all
  have c: "0 \<le> cos ?t" using t by (intro cos_ge_zero) simp_all
  have "1 - sin ?t * sin ?t = cos ?t * cos ?t"
    using sin_cos_squared_add [of ?t] by (simp add: power2_eq_square algebra_simps)
  then have "atan2 (sqrt (sin ?t * sin ?t)) (sqrt (1 - sin ?t * sin ?t)) = atan2 (sin ?t) (cos ?t)"
    using s c by (simp add: real_sqrt_mult_self)
  also have "\<dots> = ?t" by (rule atan2_sin_cos) (rule t)+
  finally show ?thesis
    by (simp add: calculateDistance_def Let_def)
qed

lemma calculateDistance_self: "calculateDistance la lo la lo = 0"
  by (simp add: calculateDistance_def atan2_def)

lemma calculateDistance_sym:
  "calculateDistance la1 lo1 la2 lo2 = calculateDistance la2 lo2 la1 lo1"
proof -
  have m: "(y - x) * pi / 180 / 2 = - ((x - y) * pi / 180 / 2)" for x y :: real
    by (simp add: field_simps)
  have a: "sin ((la2 - la1) * pi / 180 / 2) = - sin ((la1 - la2) * pi / 180 / 2)"
    unfolding m [of la2 la1] by (rule sin_minus)
  have b: "sin ((lo2 - lo1) * pi / 180 / 2) = - sin ((lo1 - lo2) * pi / 180 / 2)"
    unfolding m [of lo2 lo1] by (rule sin_minus)
  show ?thesis
    unfolding calculateDistance_def Let_def a b by (simp add: mult.commute)
qed

text \<open>
  Claim C7. The distance from a point to itself is 0, the distance is symmetric, and one
  degree of longitude on the equator is \<open>6371 \<pi> / 180\<close> km, within 0.5 percent of
  111.19 km.
\<close>

theorem calculateDistance_properties:
  "calculateDistance la lo la lo = 0
   \<and> calculateDistance la1 lo1 la2 lo2 = calculateDistance la2 lo2 la1 lo1
   \<and> \<bar>calculateDistance 0 0 0 1 - 111.19\<bar> \<le> 0.005 * 111.19"
proof -
  have p: "157 / 50 < pi" "pi < 1571 / 500"
    using pi_bounds by simp_all
  have "6371 * pi / 180 - 11119 / 100 \<le> 11119 / 20000"
    using p(2) by linarith
  moreover have "- (11119 / 20000) \<le> 6371 * pi / 180 - 11119 / 100"
    using p(1) by linarith
  ultimately have "\<bar>6371 * pi / 180 - 11119 / 100\<bar> \<le> 11119 / 20000"
    by (intro abs_leI) linarith+
  then have d: "\<bar>calculateDistance 0 0 0 1 - 111.19\<bar> \<le> 0.005 * 111.19"
    unfolding calculateDistance_one_degree by simp
  show ?thesis
  proof (intro conjI)
    show "calculateDistance la lo la lo = 0"
      by (rule calculateDistance_self)
    show "calculateDistance la1 lo1 la2 lo2 = calculateDistance la2 lo2 la1 lo1"
      by (rule calculateDistance_sym)
    show "\<bar>calculateDistance 0 0 0 1 - 111.19\<bar> \<le> 0.005 * 111.19"
      by (rule d)
  qed
qed


end
